theory Spec2Isabelle
  imports
    Complex_Main
    "HOL-Library.AList"
    "HOL-Library.Char_ord"
    "HOL-Library.List_Lexorder"
begin

section \<open>Shot maps: loading, the filter cascade and the renderer of app.py\<close>

text \<open>
  The script app.py runs top to bottom on every interaction. It loads one CSV file per
  league, concatenates them, replaces missing categorical cells by the text Unknown,
  narrows the table through the sidebar selections and draws the surviving rows.
  The model follows the script line by line. A data frame is the list of its rows, a
  missing cell (NaN) is \<open>None\<close>, the values the widgets return are an input record, and
  the Streamlit calls the script makes are collected in order in a list.
  Strings are ordered as Python orders them (lexicographically by character code), and
  the numeric columns are reals: no property below depends on rounding.
\<close>

subsection \<open>Data model\<close>

record shot =
  league :: string
  team :: "string option"
  player :: "string option"
  game :: "string option"
  situation :: "string option"
  body_part :: "string option"
  result :: "string option"
  location_x :: "real option"
  location_y :: "real option"
  xg :: "real option"

type_synonym dataframe = "shot list"

text \<open>The files the script can see: a path has a table, or is not there.\<close>

type_synonym filesystem = "string \<Rightarrow> dataframe option"

datatype py_error = ValueError

text \<open>The dict literal \<open>LEAGUE_FILES\<close>, in its insertion order.\<close>

definition LEAGUE_FILES :: "(string \<times> string) list" where
  "LEAGUE_FILES =
     [(''ENG-Premier League'', ''epl_shots.csv''),
      (''ESP-La Liga'', ''laliga_shots.csv''),
      (''FRA-Ligue 1'', ''fra_shots.csv''),
      (''GER-Bundesliga'', ''ger_shots.csv''),
      (''ITA-Serie A'', ''ita_shots.csv'')]"

subsection \<open>Loading (lines 19 to 39)\<close>

text \<open>The text of \<open>st.error\<close> on line 27; the path stands between single quotes.\<close>

definition not_found_message :: "string \<Rightarrow> string" where
  "not_found_message file_path =
     ''Error: '' @ [CHR 0x27] @ file_path @ [CHR 0x27] @
     '' not found. Please make sure the data file is in the same directory.''"

text \<open>\<open>df['league'] = league\<close>: every row of the table gets the league of its file.\<close>

definition tag_league :: "string \<Rightarrow> dataframe \<Rightarrow> dataframe" where
  "tag_league lg df = map (\<lambda>r. r\<lparr>league := lg\<rparr>) df"

text \<open>
  The loop of lines 20 to 28 over the items of \<open>LEAGUE_FILES\<close>. The accumulator is the
  dict \<open>all_shots_data\<close>. A file that is not found ends the run with the message
  (\<open>st.error\<close>, then \<open>st.stop\<close>): the result is \<open>Inl\<close> of the message.
\<close>

fun load_leagues ::
  "filesystem \<Rightarrow> (string \<times> string) list \<Rightarrow> (string \<times> dataframe) list
     \<Rightarrow> string + (string \<times> dataframe) list" where
  "load_leagues fs [] all_shots_data = Inr all_shots_data"
| "load_leagues fs ((lg, file_path) # rest) all_shots_data =
     (case fs file_path of
        None \<Rightarrow> Inl (not_found_message file_path)
      | Some df \<Rightarrow>
          load_leagues fs rest (AList.update lg (tag_league lg df) all_shots_data))"

text \<open>\<open>fillna('Unknown')\<close> on one cell, and lines 34 to 39 on one row.\<close>

definition fillna :: "string option \<Rightarrow> string option" where
  "fillna c = (case c of None \<Rightarrow> Some ''Unknown'' | Some s \<Rightarrow> Some s)"

definition fill_missing :: "shot \<Rightarrow> shot" where
  "fill_missing r =
     r\<lparr>team := fillna (team r), player := fillna (player r), game := fillna (game r),
       situation := fillna (situation r), body_part := fillna (body_part r),
       result := fillna (result r)\<rparr>"

text \<open>Line 31 and lines 34 to 39: the concatenation of the loaded tables, normalised.\<close>

definition combined_shots_df :: "(string \<times> dataframe) list \<Rightarrow> dataframe" where
  "combined_shots_df all_shots_data = map fill_missing (concat (map snd all_shots_data))"

subsection \<open>The filter cascade (lines 48 to 107)\<close>

text \<open>
  \<open>Series.unique\<close> keeps the first occurrence of each value, in order of appearance.
\<close>

definition unique :: "'a list \<Rightarrow> 'a list" where
  "unique xs = rev (remdups (rev xs))"

text \<open>\<open>list.index\<close>: the position of the first occurrence, or \<open>ValueError\<close>.\<close>

fun index_from :: "nat \<Rightarrow> 'a list \<Rightarrow> 'a \<Rightarrow> py_error + nat" where
  "index_from i [] v = Inl ValueError"
| "index_from i (x # xs) v = (if x = v then Inr i else index_from (Suc i) xs v)"

definition list_index :: "'a list \<Rightarrow> 'a \<Rightarrow> py_error + nat" where
  "list_index xs v = index_from 0 xs v"

text \<open>Line 48: the option list of the league select box.\<close>

definition leagues :: "dataframe \<Rightarrow> string list" where
  "leagues df = sort (unique (map league df))"

text \<open>
  Line 49: the \<open>index\<close> argument of the select box, and the league the box shows
  before the user has touched it.
\<close>

definition default_index :: "string list \<Rightarrow> py_error + nat" where
  "default_index ls = list_index ls ''ENG-Premier League''"

definition default_league :: "string list \<Rightarrow> py_error + string" where
  "default_league ls =
     (case default_index ls of Inl e \<Rightarrow> Inl e | Inr i \<Rightarrow> Inr (ls ! i))"

text \<open>The values the sidebar widgets return in one run of the script.\<close>

record selections =
  selected_league :: string
  selected_teams :: "string list"
  selected_players :: "string list"
  selected_games :: "string list"
  selected_situations :: "string list"
  selected_body_parts :: "string list"
  selected_results :: "string list"

text \<open>
  The widgets' values before any interaction: the default league, the team default
  \<open>['All']\<close> of line 58, and nothing selected in the other multiselects.
\<close>

definition default_selections :: "string list \<Rightarrow> py_error + selections" where
  "default_selections ls =
     (case default_league ls of
        Inl e \<Rightarrow> Inl e
      | Inr l \<Rightarrow>
          Inr \<lparr>selected_league = l, selected_teams = [''All''], selected_players = [],
               selected_games = [], selected_situations = [], selected_body_parts = [],
               selected_results = []\<rparr>)"

text \<open>\<open>Series.isin\<close> with a list of strings, on one cell: a missing cell is in no list.\<close>

definition isin :: "string option \<Rightarrow> string list \<Rightarrow> bool" where
  "isin c vs = (case c of None \<Rightarrow> False | Some s \<Rightarrow> s \<in> set vs)"

text \<open>Line 52.\<close>

definition filtered_by_league :: "dataframe \<Rightarrow> string \<Rightarrow> dataframe" where
  "filtered_by_league df lg = filter (\<lambda>r. league r = lg) df"

text \<open>Lines 62 to 65.\<close>

definition filtered_by_teams :: "dataframe \<Rightarrow> string list \<Rightarrow> dataframe" where
  "filtered_by_teams by_league teams =
     (if ''All'' \<in> set teams then by_league
      else filter (\<lambda>r. isin (team r) teams) by_league)"

text \<open>
  Lines 91 to 104: five statements of one shape, \<open>if sel: rows = rows[rows[col].isin(sel)]\<close>;
  a list is true when it is not empty.
\<close>

definition by_players :: "string list \<Rightarrow> dataframe \<Rightarrow> dataframe" where
  "by_players sel rows = (if sel \<noteq> [] then filter (\<lambda>r. isin (player r) sel) rows else rows)"

definition by_games :: "string list \<Rightarrow> dataframe \<Rightarrow> dataframe" where
  "by_games sel rows = (if sel \<noteq> [] then filter (\<lambda>r. isin (game r) sel) rows else rows)"

definition by_situations :: "string list \<Rightarrow> dataframe \<Rightarrow> dataframe" where
  "by_situations sel rows =
     (if sel \<noteq> [] then filter (\<lambda>r. isin (situation r) sel) rows else rows)"

definition by_body_parts :: "string list \<Rightarrow> dataframe \<Rightarrow> dataframe" where
  "by_body_parts sel rows =
     (if sel \<noteq> [] then filter (\<lambda>r. isin (body_part r) sel) rows else rows)"

definition by_results :: "string list \<Rightarrow> dataframe \<Rightarrow> dataframe" where
  "by_results sel rows = (if sel \<noteq> [] then filter (\<lambda>r. isin (result r) sel) rows else rows)"

text \<open>Line 107: \<open>dropna\<close> on the four plotting columns.\<close>

definition dropna :: "dataframe \<Rightarrow> dataframe" where
  "dropna rows =
     filter (\<lambda>r. location_x r \<noteq> None \<and> location_y r \<noteq> None \<and> xg r \<noteq> None \<and> result r \<noteq> None)
       rows"

text \<open>The table after each step of lines 52 to 107, in the order of the script.\<close>

definition after_league :: "dataframe \<Rightarrow> selections \<Rightarrow> dataframe" where
  "after_league df sel = filtered_by_league df (selected_league sel)"

definition after_teams :: "dataframe \<Rightarrow> selections \<Rightarrow> dataframe" where
  "after_teams df sel = filtered_by_teams (after_league df sel) (selected_teams sel)"

definition after_players :: "dataframe \<Rightarrow> selections \<Rightarrow> dataframe" where
  "after_players df sel = by_players (selected_players sel) (after_teams df sel)"

definition after_games :: "dataframe \<Rightarrow> selections \<Rightarrow> dataframe" where
  "after_games df sel = by_games (selected_games sel) (after_players df sel)"

definition after_situations :: "dataframe \<Rightarrow> selections \<Rightarrow> dataframe" where
  "after_situations df sel = by_situations (selected_situations sel) (after_games df sel)"

definition after_body_parts :: "dataframe \<Rightarrow> selections \<Rightarrow> dataframe" where
  "after_body_parts df sel = by_body_parts (selected_body_parts sel) (after_situations df sel)"

definition after_results :: "dataframe \<Rightarrow> selections \<Rightarrow> dataframe" where
  "after_results df sel = by_results (selected_results sel) (after_body_parts df sel)"

text \<open>The final value of the variable \<open>filtered_shots\<close>, the table that is rendered.\<close>

definition filtered_shots :: "dataframe \<Rightarrow> selections \<Rightarrow> dataframe" where
  "filtered_shots df sel = dropna (after_results df sel)"

subsection \<open>The renderer (lines 109 to 170)\<close>

text \<open>The dict literal \<open>result_colors\<close> of lines 126 to 133, in its insertion order.\<close>

definition result_colors :: "(string \<times> string) list" where
  "result_colors =
     [(''Goal'', ''yellow''),
      (''Missed Shot'', ''red''),
      (''Blocked Shot'', ''gray''),
      (''Saved Shot'', ''blue''),
      (''Shot On Post'', ''orange''),
      (''Unknown'', ''purple'')]"

text \<open>
  Line 138, \<open>Series.map(result_colors)\<close> on one cell: a value that is not a key of the
  dict becomes NaN, here \<open>None\<close>.
\<close>

definition map_colors :: "string option \<Rightarrow> string option" where
  "map_colors c = (case c of None \<Rightarrow> None | Some s \<Rightarrow> map_of result_colors s)"

text \<open>\<open>dict.get(key, default)\<close>, as used on line 165.\<close>

definition dict_get :: "('k \<times> 'v) list \<Rightarrow> 'k \<Rightarrow> 'v \<Rightarrow> 'v" where
  "dict_get d k dflt = (case map_of d k of None \<Rightarrow> dflt | Some v \<Rightarrow> v)"

text \<open>Multiplying a column by a constant: a missing cell stays missing.\<close>

definition scale :: "real \<Rightarrow> real option \<Rightarrow> real option" where
  "scale k c = map_option (\<lambda>v. v * k) c"

text \<open>One scatter point of lines 136 to 140.\<close>

record marker =
  marker_x :: "real option"
  marker_y :: "real option"
  marker_s :: "real option"
  marker_color :: "string option"

definition marker_of :: "shot \<Rightarrow> marker" where
  "marker_of r =
     \<lparr>marker_x = scale 120 (location_x r), marker_y = scale 80 (location_y r),
      marker_s = scale 1500 (xg r), marker_color = map_colors (result r)\<rparr>"

definition markers_of :: "dataframe \<Rightarrow> marker list" where
  "markers_of rows = map marker_of rows"

text \<open>
  The call \<open>pitch.scatter\<close> itself. It belongs to the plotting library, not to the
  script: the library turns the \<open>color\<close> argument into colour values and rejects a
  sequence that holds NaN with \<open>ValueError\<close>. Nothing in the script catches it, so a
  point without colour ends the run on line 136. After \<open>dropna\<close> the other three
  arguments have no missing value.
\<close>

definition scatter :: "dataframe \<Rightarrow> py_error + marker list" where
  "scatter rows =
     (if None \<in> set (map marker_color (markers_of rows)) then Inl ValueError
      else Inr (markers_of rows))"

text \<open>\<open>sep.join(parts)\<close>.\<close>

fun join :: "string \<Rightarrow> string list \<Rightarrow> string" where
  "join sep [] = []"
| "join sep [x] = x"
| "join sep (x # y # ys) = x @ sep @ join sep (y # ys)"

text \<open>Lines 143 to 159: the title, one clause for each selection that restricts.\<close>

definition title_parts :: "selections \<Rightarrow> string list" where
  "title_parts sel =
     [''Shot Map'', ''for '' @ selected_league sel]
     @ (if selected_teams sel \<noteq> [] \<and> ''All'' \<notin> set (selected_teams sel)
        then [''('' @ join '', '' (selected_teams sel) @ '')''] else [])
     @ (if selected_players sel \<noteq> []
        then [''by '' @ join '', '' (selected_players sel)] else [])
     @ (if selected_games sel \<noteq> []
        then [''in '' @ join '', '' (selected_games sel)] else [])
     @ (if selected_situations sel \<noteq> []
        then [''from '' @ join '', '' (selected_situations sel)] else [])
     @ (if selected_body_parts sel \<noteq> []
        then [''with '' @ join '', '' (selected_body_parts sel)] else [])
     @ (if selected_results sel \<noteq> []
        then [''('' @ join '', '' (selected_results sel) @ '')''] else [])"

definition title :: "selections \<Rightarrow> string" where
  "title sel = join '' '' (title_parts sel)"

text \<open>Line 163.\<close>

definition present_results :: "dataframe \<Rightarrow> string option list" where
  "present_results rows = unique (map result rows)"

text \<open>
  Lines 164 to 166: one legend handle, and the comprehension. It runs over the keys of
  \<open>result_colors\<close> and keeps those found in \<open>present_results\<close>.
\<close>

record handle =
  label :: string
  markerfacecolor :: string

definition handles :: "dataframe \<Rightarrow> handle list" where
  "handles rows =
     map (\<lambda>res. \<lparr>label = res, markerfacecolor = dict_get result_colors res ''black''\<rparr>)
       (filter (\<lambda>res. Some res \<in> set (present_results rows)) (map fst result_colors))"

text \<open>What goes into the figure of \<open>st.pyplot(fig)\<close>: the points, the title and the legend.\<close>

record figure =
  fig_markers :: "marker list"
  fig_title :: string
  fig_legend :: "handle list"
  fig_legend_title :: string

text \<open>
  Lines 118 to 169 in their order: the scatter call first, then the title and the legend,
  which are reached only when the scatter call returns.
\<close>

definition draw :: "selections \<Rightarrow> dataframe \<Rightarrow> py_error + figure" where
  "draw sel rows =
     (case scatter rows of
        Inl e \<Rightarrow> Inl e
      | Inr points \<Rightarrow>
          Inr \<lparr>fig_markers = points, fig_title = title sel, fig_legend = handles rows,
               fig_legend_title = ''Shot Result''\<rparr>)"

text \<open>The decimal text of a length, for the f-string of line 111.\<close>

definition digit :: "nat \<Rightarrow> char" where
  "digit d = ''0123456789'' ! d"

fun str :: "nat \<Rightarrow> string" where
  "str n = (if n < 10 then [digit n] else str (n div 10) @ [digit (n mod 10)])"

declare str.simps [simp del]

definition shots_message :: "dataframe \<Rightarrow> string" where
  "shots_message rows = ''Number of shots: '' @ str (length rows)"

subsection \<open>One run of the script\<close>

text \<open>
  The Streamlit calls of the script. A multiselect is recorded with its label and its
  default; its option list only fills the widget, and the value it returns is the
  corresponding field of the input record.
\<close>

datatype st_call =
    St_error string
  | St_set_page_config string
  | St_sidebar_header string
  | St_sidebar_selectbox string "string list" nat
  | St_sidebar_multiselect string "string list"
  | St_sidebar_subheader string
  | St_sidebar_info string
  | St_write string
  | St_pyplot figure

text \<open>
  How a run ends: \<open>st.stop()\<close> on line 28, an exception that nothing catches
  (\<open>leagues.index\<close> on line 49, the scatter call on line 136), or the end of the
  script. The calls made before an exception stay on the page.
\<close>

datatype outcome = Stopped | Raised py_error | Finished

text \<open>Lines 43 and 45, and the sidebar of lines 49 to 111 in the order of the calls.\<close>

definition chrome :: "st_call list" where
  "chrome = [St_set_page_config ''wide'', St_sidebar_header ''Filter Options'']"

definition sidebar :: "string list \<Rightarrow> nat \<Rightarrow> dataframe \<Rightarrow> st_call list" where
  "sidebar ls i rows =
     [St_sidebar_selectbox ''Select League'' ls i,
      St_sidebar_multiselect ''Select Team(s)'' [''All''],
      St_sidebar_multiselect ''Select Player(s)'' [],
      St_sidebar_multiselect ''Select Match(es)'' [],
      St_sidebar_multiselect ''Select Situation(s)'' [],
      St_sidebar_multiselect ''Select Body Part(s)'' [],
      St_sidebar_multiselect ''Select Result(s)'' [],
      St_sidebar_subheader ''Total Shots'',
      St_sidebar_info (shots_message rows)]"

text \<open>
  Lines 43 to 170, given the combined table. The count of line 111 is on the page before
  the scatter call of line 136 is made, so it stays there when that call raises.
\<close>

definition page :: "dataframe \<Rightarrow> selections \<Rightarrow> st_call list \<times> outcome" where
  "page df sel =
     (case default_index (leagues df) of
        Inl e \<Rightarrow> (chrome, Raised e)
      | Inr i \<Rightarrow>
          (let rows = filtered_shots df sel in
           if rows = []
           then (chrome @ sidebar (leagues df) i rows
                   @ [St_write ''No shots match the selected filters.''],
                 Finished)
           else (case draw sel rows of
                   Inl e \<Rightarrow> (chrome @ sidebar (leagues df) i rows, Raised e)
                 | Inr fig \<Rightarrow> (chrome @ sidebar (leagues df) i rows @ [St_pyplot fig], Finished))))"

text \<open>The whole script: loading, then the page; a missing file stops the run.\<close>

definition app :: "filesystem \<Rightarrow> selections \<Rightarrow> st_call list \<times> outcome" where
  "app fs sel =
     (case load_leagues fs LEAGUE_FILES [] of
        Inl message \<Rightarrow> ([St_error message], Stopped)
      | Inr all_shots_data \<Rightarrow> page (combined_shots_df all_shots_data) sel)"

subsection \<open>Example data\<close>

text \<open>
  Three rows of a Premier League file (one with a result outside the palette, one with
  missing cells), one row of a La Liga file, the files and a selection; further down a
  second set of files whose results are all in the palette, with the figure drawn from it.
\<close>

definition arsenal_goal :: shot where
  "arsenal_goal =
     \<lparr>league = ''ENG-Premier League'', team = Some ''Arsenal'', player = Some ''Bukayo Saka'',
      game = Some ''Arsenal-Chelsea'', situation = Some ''Open Play'',
      body_part = Some ''Left Foot'', result = Some ''Goal'',
      location_x = Some 0.9, location_y = Some 0.5, xg = Some 0.4\<rparr>"

definition chelsea_own_goal :: shot where
  "chelsea_own_goal =
     \<lparr>league = ''ENG-Premier League'', team = Some ''Chelsea'', player = Some ''Reece James'',
      game = Some ''Arsenal-Chelsea'', situation = Some ''From Corner'',
      body_part = Some ''Head'', result = Some ''Own Goal'',
      location_x = Some 0.1, location_y = Some 0.5, xg = Some 0.2\<rparr>"

definition chelsea_no_xg :: shot where
  "chelsea_no_xg =
     \<lparr>league = ''ENG-Premier League'', team = Some ''Chelsea'', player = None,
      game = Some ''Arsenal-Chelsea'', situation = None,
      body_part = Some ''Right Foot'', result = Some ''Saved Shot'',
      location_x = Some 0.8, location_y = Some 0.4, xg = None\<rparr>"

definition madrid_miss :: shot where
  "madrid_miss =
     \<lparr>league = ''ESP-La Liga'', team = Some ''Real Madrid'', player = Some ''Vinicius Junior'',
      game = Some ''Real Madrid-Sevilla'', situation = Some ''Open Play'',
      body_part = Some ''Right Foot'', result = Some ''Missed Shot'',
      location_x = Some 0.7, location_y = Some 0.3, xg = Some 0.1\<rparr>"

definition demo_files :: filesystem where
  "demo_files =
     [''epl_shots.csv'' \<mapsto> [arsenal_goal, chelsea_own_goal, chelsea_no_xg],
      ''laliga_shots.csv'' \<mapsto> [madrid_miss], ''fra_shots.csv'' \<mapsto> [],
      ''ger_shots.csv'' \<mapsto> [], ''ita_shots.csv'' \<mapsto> []]"

definition demo_df :: dataframe where
  "demo_df = [arsenal_goal, chelsea_own_goal, fill_missing chelsea_no_xg, madrid_miss]"

definition all_teams :: selections where
  "all_teams =
     \<lparr>selected_league = ''ENG-Premier League'', selected_teams = [''All''],
      selected_players = [], selected_games = [], selected_situations = [],
      selected_body_parts = [], selected_results = []\<rparr>"

text \<open>
  A file whose league has no row, a selection that restricts three stages, and a
  directory where one file is not there.
\<close>

definition arsenal_saved :: shot where
  "arsenal_saved =
     \<lparr>league = ''ENG-Premier League'', team = Some ''Arsenal'', player = Some ''Kai Havertz'',
      game = Some ''Arsenal-Chelsea'', situation = Some ''Set Piece'',
      body_part = Some ''Head'', result = Some ''Saved Shot'',
      location_x = Some 0.85, location_y = Some 0.45, xg = Some 0.1\<rparr>"

definition palette_files :: filesystem where
  "palette_files =
     [''epl_shots.csv'' \<mapsto> [arsenal_saved, arsenal_goal, chelsea_no_xg],
      ''laliga_shots.csv'' \<mapsto> [madrid_miss], ''fra_shots.csv'' \<mapsto> [],
      ''ger_shots.csv'' \<mapsto> [], ''ita_shots.csv'' \<mapsto> []]"

definition palette_df :: dataframe where
  "palette_df = [arsenal_saved, arsenal_goal, fill_missing chelsea_no_xg, madrid_miss]"

definition palette_figure :: figure where
  "palette_figure =
     \<lparr>fig_markers =
        [\<lparr>marker_x = Some 102, marker_y = Some 36, marker_s = Some 150,
          marker_color = Some ''blue''\<rparr>,
         \<lparr>marker_x = Some 108, marker_y = Some 40, marker_s = Some 600,
          marker_color = Some ''yellow''\<rparr>],
      fig_title = ''Shot Map for ENG-Premier League'',
      fig_legend =
        [\<lparr>label = ''Goal'', markerfacecolor = ''yellow''\<rparr>,
         \<lparr>label = ''Saved Shot'', markerfacecolor = ''blue''\<rparr>],
      fig_legend_title = ''Shot Result''\<rparr>"

definition no_premier_league :: filesystem where
  "no_premier_league =
     [''epl_shots.csv'' \<mapsto> [], ''laliga_shots.csv'' \<mapsto> [madrid_miss],
      ''fra_shots.csv'' \<mapsto> [], ''ger_shots.csv'' \<mapsto> [], ''ita_shots.csv'' \<mapsto> []]"

definition chelsea_headers :: selections where
  "chelsea_headers =
     \<lparr>selected_league = ''ENG-Premier League'', selected_teams = [''Chelsea''],
      selected_players = [], selected_games = [''Arsenal-Chelsea''], selected_situations = [],
      selected_body_parts = [''Head''], selected_results = []\<rparr>"

definition no_bundesliga :: filesystem where
  "no_bundesliga = demo_files(''ger_shots.csv'' := None)"

section \<open>Properties\<close>

subsection \<open>Evaluation of the examples\<close>

lemmas example_defs =
  arsenal_goal_def chelsea_own_goal_def chelsea_no_xg_def madrid_miss_def demo_files_def
  demo_df_def all_teams_def

lemmas palette_defs =
  arsenal_saved_def arsenal_goal_def chelsea_no_xg_def madrid_miss_def palette_files_def
  palette_df_def all_teams_def

lemmas cascade_defs =
  filtered_shots_def after_results_def after_body_parts_def after_situations_def
  after_games_def after_players_def after_teams_def after_league_def
  by_players_def by_games_def by_situations_def by_body_parts_def by_results_def
  filtered_by_league_def filtered_by_teams_def dropna_def isin_def

lemmas string_order = less_eq_char_def less_char_def list_le_def list_less_def

lemma demo_load:
  "load_leagues demo_files LEAGUE_FILES [] =
     Inr [(''ENG-Premier League'', [arsenal_goal, chelsea_own_goal, chelsea_no_xg]),
          (''ESP-La Liga'', [madrid_miss]), (''FRA-Ligue 1'', []),
          (''GER-Bundesliga'', []), (''ITA-Serie A'', [])]"
  by (simp add: LEAGUE_FILES_def demo_files_def tag_league_def arsenal_goal_def
      chelsea_own_goal_def chelsea_no_xg_def madrid_miss_def)

lemma demo_combined:
  "combined_shots_df
     [(''ENG-Premier League'', [arsenal_goal, chelsea_own_goal, chelsea_no_xg]),
      (''ESP-La Liga'', [madrid_miss]), (''FRA-Ligue 1'', []),
      (''GER-Bundesliga'', []), (''ITA-Serie A'', [])] = demo_df"
  by (simp add: combined_shots_df_def demo_df_def fill_missing_def fillna_def
      arsenal_goal_def chelsea_own_goal_def madrid_miss_def)

lemma demo_leagues: "leagues demo_df = [''ENG-Premier League'', ''ESP-La Liga'']"
  by (simp add: leagues_def unique_def example_defs fill_missing_def string_order)

lemma demo_filtered: "filtered_shots demo_df all_teams = [arsenal_goal, chelsea_own_goal]"
  by (simp add: cascade_defs example_defs fill_missing_def fillna_def del: not_None_eq)


subsection \<open>Facts about the operations\<close>

lemma set_unique: "set (unique xs) = set xs"
  by (simp add: unique_def)

lemma distinct_unique: "distinct (unique xs)"
  by (simp add: unique_def)

lemma set_leagues: "set (leagues df) = league ` set df"
  by (simp add: leagues_def set_unique)

lemma index_from_absent: "v \<notin> set xs \<Longrightarrow> index_from i xs v = Inl ValueError"
  by (induction xs arbitrary: i) auto

lemma index_from_present:
  "v \<in> set xs \<Longrightarrow> \<exists>j. index_from i xs v = Inr (i + j) \<and> j < length xs \<and> xs ! j = v"
proof (induction xs arbitrary: i)
  case Nil
  then show ?case by simp
next
  case (Cons x xs)
  show ?case
  proof (cases "x = v")
    case True
    then show ?thesis by simp
  next
    case False
    with Cons.prems have "v \<in> set xs" by simp
    from Cons.IH [OF this, of "Suc i"] obtain j
      where "index_from (Suc i) xs v = Inr (Suc i + j)" "j < length xs" "xs ! j = v"
      by blast
    with False have "index_from i (x # xs) v = Inr (i + Suc j) \<and> Suc j < length (x # xs)
        \<and> (x # xs) ! Suc j = v"
      by simp
    then show ?thesis by blast
  qed
qed

lemma default_league_eq:
  "default_league ls =
     (if ''ENG-Premier League'' \<in> set ls then Inr ''ENG-Premier League'' else Inl ValueError)"
proof (cases "''ENG-Premier League'' \<in> set ls")
  case True
  from index_from_present [OF this, of 0] obtain j
    where "index_from 0 ls ''ENG-Premier League'' = Inr j" "ls ! j = ''ENG-Premier League''"
    by auto
  with True show ?thesis
    by (simp add: default_league_def default_index_def list_index_def)
next
  case False
  then show ?thesis
    by (simp add: default_league_def default_index_def list_index_def index_from_absent)
qed

lemma load_leagues_missing:
  "\<exists>p \<in> snd ` set files. fs p = None \<Longrightarrow>
   \<exists>p \<in> snd ` set files. fs p = None \<and> load_leagues fs files acc = Inl (not_found_message p)"
proof (induction files arbitrary: acc)
  case Nil
  then show ?case by simp
next
  case (Cons f files)
  obtain lg file_path where f: "f = (lg, file_path)" by (cases f)
  show ?case
  proof (cases "fs file_path")
    case None
    with f show ?thesis by auto
  next
    case (Some df)
    with Cons.prems f have "\<exists>p \<in> snd ` set files. fs p = None" by auto
    from Cons.IH [OF this] Some f show ?thesis by auto
  qed
qed

lemma load_leagues_present:
  "\<forall>p \<in> snd ` set files. fs p \<noteq> None \<Longrightarrow> \<exists>d. load_leagues fs files acc = Inr d"
proof (induction files arbitrary: acc)
  case Nil
  then show ?case by simp
next
  case (Cons f files)
  obtain lg file_path where f: "f = (lg, file_path)" by (cases f)
  with Cons.prems obtain df where "fs file_path = Some df" by auto
  with Cons f show ?case by auto
qed

lemma filter_narrows: "set (filter P xs) \<subseteq> set xs \<and> length (filter P xs) \<le> length xs"
  by simp

lemma league_stage_narrows:
  "set (filtered_by_league df lg) \<subseteq> set df \<and> length (filtered_by_league df lg) \<le> length df"
  by (simp add: filtered_by_league_def)

lemma team_stage_narrows:
  "set (filtered_by_teams rows ts) \<subseteq> set rows \<and> length (filtered_by_teams rows ts) \<le> length rows"
  by (simp add: filtered_by_teams_def)

lemma player_stage_narrows:
  "set (by_players s rows) \<subseteq> set rows \<and> length (by_players s rows) \<le> length rows"
  by (simp add: by_players_def)

lemma game_stage_narrows:
  "set (by_games s rows) \<subseteq> set rows \<and> length (by_games s rows) \<le> length rows"
  by (simp add: by_games_def)

lemma situation_stage_narrows:
  "set (by_situations s rows) \<subseteq> set rows \<and> length (by_situations s rows) \<le> length rows"
  by (simp add: by_situations_def)

lemma body_part_stage_narrows:
  "set (by_body_parts s rows) \<subseteq> set rows \<and> length (by_body_parts s rows) \<le> length rows"
  by (simp add: by_body_parts_def)

lemma result_stage_narrows:
  "set (by_results s rows) \<subseteq> set rows \<and> length (by_results s rows) \<le> length rows"
  by (simp add: by_results_def)

lemma dropna_narrows:
  "set (dropna rows) \<subseteq> set rows \<and> length (dropna rows) \<le> length rows"
  by (simp add: dropna_def)



lemma palette:
  "map_colors (Some ''Goal'') = Some ''yellow'' \<and>
   map_colors (Some ''Missed Shot'') = Some ''red'' \<and>
   map_colors (Some ''Blocked Shot'') = Some ''gray'' \<and>
   map_colors (Some ''Saved Shot'') = Some ''blue'' \<and>
   map_colors (Some ''Shot On Post'') = Some ''orange'' \<and>
   map_colors (Some ''Unknown'') = Some ''purple''"
  by (simp add: map_colors_def result_colors_def)

lemma marker_color_of_result: "marker_color (marker_of r) = map_colors (result r)"
  by (simp add: marker_of_def)


lemma fill_missing_result: "result (fill_missing r) \<noteq> None"
  by (simp add: fill_missing_def fillna_def split: option.splits)

lemma digit_code: "d < 10 \<Longrightarrow> of_char (digit d) = 48 + d"
proof -
  assume "d < 10"
  then have "d = 0 \<or> d = 1 \<or> d = 2 \<or> d = 3 \<or> d = 4 \<or> d = 5 \<or> d = 6 \<or> d = 7 \<or> d = 8 \<or> d = 9"
    by arith
  then show ?thesis
    by (elim disjE) (simp_all add: digit_def)
qed

lemma digit_inj: "a < 10 \<Longrightarrow> b < 10 \<Longrightarrow> digit a = digit b \<Longrightarrow> a = b"
proof -
  assume a: "a < 10" and b: "b < 10" and eq: "digit a = digit b"
  from eq have "(of_char (digit a) :: nat) = of_char (digit b)" by simp
  with a b show ?thesis by (simp add: digit_code)
qed

lemma str_not_Nil: "str n \<noteq> []"
  by (subst str.simps) simp

lemma str_last: "last (str n) = digit (n mod 10)"
  by (subst str.simps) simp

lemma str_butlast: "butlast (str n) = (if n < 10 then [] else str (n div 10))"
  by (subst str.simps) simp

lemma str_inj: "str n = str m \<Longrightarrow> n = m"
proof (induction n arbitrary: m rule: str.induct)
  case (1 n)
  from "1.prems" have l: "last (str n) = last (str m)" and b: "butlast (str n) = butlast (str m)"
    by simp_all
  from l have "digit (n mod 10) = digit (m mod 10)" by (simp add: str_last)
  then have r: "n mod 10 = m mod 10" by (intro digit_inj) simp_all
  show ?case
  proof (cases "n < 10")
    case True
    with b have "m < 10" using str_not_Nil [of "m div 10"] by (auto simp: str_butlast split: if_splits)
    with True r show ?thesis by simp
  next
    case False
    with b have m: "\<not> m < 10" using str_not_Nil [of "n div 10"] by (auto simp: str_butlast split: if_splits)
    with False b have "str (n div 10) = str (m div 10)" by (simp add: str_butlast)
    with "1.IH" False have "n div 10 = m div 10" by simp
    with r show ?thesis by (metis div_mult_mod_eq)
  qed
qed


lemma demo_draw: "draw all_teams [arsenal_goal, chelsea_own_goal] = Inl ValueError"
  by (simp add: draw_def scatter_def markers_of_def marker_of_def map_colors_def
      result_colors_def arsenal_goal_def chelsea_own_goal_def)

lemma demo_page:
  "page demo_df all_teams =
     ([St_set_page_config ''wide'', St_sidebar_header ''Filter Options'',
       St_sidebar_selectbox ''Select League'' [''ENG-Premier League'', ''ESP-La Liga''] 0,
       St_sidebar_multiselect ''Select Team(s)'' [''All''],
       St_sidebar_multiselect ''Select Player(s)'' [],
       St_sidebar_multiselect ''Select Match(es)'' [],
       St_sidebar_multiselect ''Select Situation(s)'' [],
       St_sidebar_multiselect ''Select Body Part(s)'' [],
       St_sidebar_multiselect ''Select Result(s)'' [],
       St_sidebar_subheader ''Total Shots'',
       St_sidebar_info ''Number of shots: 2''],
      Raised ValueError)"
  by (simp add: page_def chrome_def sidebar_def demo_leagues demo_filtered demo_draw
      default_index_def list_index_def shots_message_def str.simps digit_def)

lemma palette_load:
  "load_leagues palette_files LEAGUE_FILES [] =
     Inr [(''ENG-Premier League'', [arsenal_saved, arsenal_goal, chelsea_no_xg]),
          (''ESP-La Liga'', [madrid_miss]), (''FRA-Ligue 1'', []),
          (''GER-Bundesliga'', []), (''ITA-Serie A'', [])]"
  by (simp add: LEAGUE_FILES_def palette_files_def tag_league_def arsenal_saved_def
      arsenal_goal_def chelsea_no_xg_def madrid_miss_def)

lemma palette_combined:
  "combined_shots_df
     [(''ENG-Premier League'', [arsenal_saved, arsenal_goal, chelsea_no_xg]),
      (''ESP-La Liga'', [madrid_miss]), (''FRA-Ligue 1'', []),
      (''GER-Bundesliga'', []), (''ITA-Serie A'', [])] = palette_df"
  by (simp add: combined_shots_df_def palette_df_def fill_missing_def fillna_def
      arsenal_saved_def arsenal_goal_def madrid_miss_def)

lemma palette_leagues: "leagues palette_df = [''ENG-Premier League'', ''ESP-La Liga'']"
  by (simp add: leagues_def unique_def palette_defs fill_missing_def string_order)

lemma palette_filtered: "filtered_shots palette_df all_teams = [arsenal_saved, arsenal_goal]"
  by (simp add: cascade_defs palette_defs fill_missing_def fillna_def del: not_None_eq)

lemma palette_unfiltered: "length (after_results palette_df all_teams) = 3"
  by (simp add: cascade_defs palette_defs fill_missing_def fillna_def)

lemma palette_draw: "draw all_teams [arsenal_saved, arsenal_goal] = Inr palette_figure"
  by (simp add: draw_def scatter_def markers_of_def marker_of_def scale_def map_colors_def
      result_colors_def title_def title_parts_def handles_def present_results_def unique_def
      dict_get_def arsenal_saved_def arsenal_goal_def all_teams_def palette_figure_def)

lemma palette_page:
  "page palette_df all_teams =
     ([St_set_page_config ''wide'', St_sidebar_header ''Filter Options'',
       St_sidebar_selectbox ''Select League'' [''ENG-Premier League'', ''ESP-La Liga''] 0,
       St_sidebar_multiselect ''Select Team(s)'' [''All''],
       St_sidebar_multiselect ''Select Player(s)'' [],
       St_sidebar_multiselect ''Select Match(es)'' [],
       St_sidebar_multiselect ''Select Situation(s)'' [],
       St_sidebar_multiselect ''Select Body Part(s)'' [],
       St_sidebar_multiselect ''Select Result(s)'' [],
       St_sidebar_subheader ''Total Shots'',
       St_sidebar_info ''Number of shots: 2'',
       St_pyplot palette_figure],
      Finished)"
  by (simp add: page_def chrome_def sidebar_def palette_leagues palette_filtered palette_draw
      default_index_def list_index_def shots_message_def str.simps digit_def)

lemma palette_run: "app palette_files all_teams = page palette_df all_teams"
  by (simp add: app_def palette_load palette_combined)

lemma demo_run: "app demo_files all_teams = page demo_df all_teams"
  by (simp add: app_def demo_load demo_combined)

lemma no_premier_league_run:
  "app no_premier_league sel =
     ([St_set_page_config ''wide'', St_sidebar_header ''Filter Options''], Raised ValueError)"
  by (simp add: app_def LEAGUE_FILES_def no_premier_league_def tag_league_def
      combined_shots_df_def fill_missing_def fillna_def madrid_miss_def page_def chrome_def
      leagues_def unique_def default_index_def list_index_def)

lemma demo_stage_sizes:
  "length demo_df = 4 \<and> length (after_league demo_df chelsea_headers) = 3 \<and>
   length (after_teams demo_df chelsea_headers) = 2 \<and>
   length (after_games demo_df chelsea_headers) = 2 \<and>
   length (after_body_parts demo_df chelsea_headers) = 1 \<and>
   length (filtered_shots demo_df chelsea_headers) = 1"
  by (simp add: cascade_defs example_defs chelsea_headers_def fill_missing_def fillna_def
      del: not_None_eq)

lemma demo_unfiltered: "length (after_results demo_df all_teams) = 3"
  by (simp add: cascade_defs example_defs fill_missing_def fillna_def)

lemma default_index_present:
  "''ENG-Premier League'' \<in> league ` set df \<Longrightarrow> \<exists>i. default_index (leagues df) = Inr i"
proof -
  assume "''ENG-Premier League'' \<in> league ` set df"
  then have "''ENG-Premier League'' \<in> set (leagues df)" by (simp add: set_leagues)
  from index_from_present [OF this, of 0] show ?thesis
    by (auto simp: default_index_def list_index_def)
qed

lemma colorless_point:
  "None \<in> set (map marker_color (markers_of rows)) \<longleftrightarrow>
     (\<exists>r \<in> set rows. map_colors (result r) = None)"
proof
  assume "None \<in> set (map marker_color (markers_of rows))"
  then obtain r where "r \<in> set rows" "marker_color (marker_of r) = None"
    unfolding markers_of_def by (metis (no_types, lifting) imageE list.set_map)
  then show "\<exists>r \<in> set rows. map_colors (result r) = None"
    unfolding marker_color_of_result by blast
next
  assume "\<exists>r \<in> set rows. map_colors (result r) = None"
  then obtain r where r: "r \<in> set rows" "marker_color (marker_of r) = None"
    unfolding marker_color_of_result by blast
  from r(1) have "marker_color (marker_of r) \<in> set (map marker_color (markers_of rows))"
    unfolding markers_of_def by simp
  with r(2) show "None \<in> set (map marker_color (markers_of rows))" by simp
qed

lemma scatter_returns:
  "scatter rows = Inr points \<longleftrightarrow>
     points = markers_of rows \<and> (\<forall>r \<in> set rows. map_colors (result r) \<noteq> None)"
  unfolding scatter_def colorless_point by auto

lemma scatter_raises:
  "scatter rows = Inl e \<longleftrightarrow> e = ValueError \<and> (\<exists>r \<in> set rows. map_colors (result r) = None)"
  unfolding scatter_def colorless_point by auto

lemma draw_returns:
  "draw sel rows = Inr fig \<Longrightarrow>
     fig_markers fig = markers_of rows \<and> fig_legend fig = handles rows \<and>
     (\<forall>r \<in> set rows. map_colors (result r) \<noteq> None)"
  by (auto simp: draw_def scatter_returns split: sum.splits simp del: not_None_eq)

lemma chrome_calls:
  "St_pyplot fig \<notin> set chrome" "St_sidebar_info text \<notin> set chrome"
  by (simp_all add: chrome_def)

lemma sidebar_calls:
  "St_pyplot fig \<notin> set (sidebar ls i rows)"
  "St_sidebar_info text \<in> set (sidebar ls i rows) \<longleftrightarrow> text = shots_message rows"
  by (auto simp: sidebar_def)

lemma page_without_league:
  "default_index (leagues df) = Inl e \<Longrightarrow> page df sel = (chrome, Raised e)"
  by (simp add: page_def)

lemma page_empty:
  "default_index (leagues df) = Inr i \<Longrightarrow> filtered_shots df sel = [] \<Longrightarrow>
   page df sel =
     (chrome @ sidebar (leagues df) i [] @ [St_write ''No shots match the selected filters.''],
      Finished)"
  by (simp add: page_def)

lemma page_scatter_raises:
  "default_index (leagues df) = Inr i \<Longrightarrow> filtered_shots df sel \<noteq> [] \<Longrightarrow>
   draw sel (filtered_shots df sel) = Inl e \<Longrightarrow>
   page df sel = (chrome @ sidebar (leagues df) i (filtered_shots df sel), Raised e)"
  by (simp add: page_def)

lemma page_plot:
  "default_index (leagues df) = Inr i \<Longrightarrow> filtered_shots df sel \<noteq> [] \<Longrightarrow>
   draw sel (filtered_shots df sel) = Inr fig \<Longrightarrow>
   page df sel =
     (chrome @ sidebar (leagues df) i (filtered_shots df sel) @ [St_pyplot fig], Finished)"
  by (simp add: page_def)

lemma pyplot_is_draw:
  assumes "St_pyplot fig \<in> set (fst (page df sel))"
  shows "draw sel (filtered_shots df sel) = Inr fig"
proof (cases "default_index (leagues df)")
  case (Inl e)
  from assms show ?thesis
    unfolding page_without_league [OF Inl] by (simp add: chrome_calls)
next
  case (Inr i)
  show ?thesis
  proof (cases "filtered_shots df sel = []")
    case True
    from assms show ?thesis
      unfolding page_empty [OF Inr True] by (simp add: chrome_calls sidebar_calls)
  next
    case False
    show ?thesis
    proof (cases "draw sel (filtered_shots df sel)")
      case (Inl e)
      from assms show ?thesis
        unfolding page_scatter_raises [OF Inr False Inl] by (simp add: chrome_calls sidebar_calls)
    next
      case inr: (Inr f)
      from assms have "f = fig"
        unfolding page_plot [OF Inr False inr] by (simp add: chrome_calls sidebar_calls)
      with inr show ?thesis by simp
    qed
  qed
qed

lemma count_on_page:
  assumes "default_index (leagues df) = Inr i"
  shows "St_sidebar_info text \<in> set (fst (page df sel)) \<longleftrightarrow>
           text = shots_message (filtered_shots df sel)"
proof (cases "filtered_shots df sel = []")
  case True
  show ?thesis
    unfolding page_empty [OF assms True] using True by (simp add: chrome_calls sidebar_calls)
next
  case False
  show ?thesis
  proof (cases "draw sel (filtered_shots df sel)")
    case (Inl e)
    show ?thesis
      unfolding page_scatter_raises [OF assms False Inl]
      by (simp add: chrome_calls sidebar_calls)
  next
    case (Inr f)
    show ?thesis
      unfolding page_plot [OF assms False Inr] by (simp add: chrome_calls sidebar_calls)
  qed
qed


lemma page_finishes:
  assumes "''ENG-Premier League'' \<in> league ` set df"
    and "\<forall>r \<in> set (filtered_shots df sel). map_colors (result r) \<noteq> None"
  shows "\<exists>calls. page df sel = (calls, Finished)"
proof -
  from default_index_present [OF assms(1)] obtain i
    where i: "default_index (leagues df) = Inr i" by blast
  show ?thesis
  proof (cases "filtered_shots df sel = []")
    case True
    from page_empty [OF i True] show ?thesis by blast
  next
    case False
    from assms(2) have "scatter (filtered_shots df sel) = Inr (markers_of (filtered_shots df sel))"
      unfolding scatter_returns by blast
    then obtain fig where "draw sel (filtered_shots df sel) = Inr fig"
      by (simp add: draw_def)
    from page_plot [OF i False this] show ?thesis by blast
  qed
qed

lemma page_raises_outside_palette:
  assumes "''ENG-Premier League'' \<in> league ` set df"
    and "r \<in> set (filtered_shots df sel)" and "map_colors (result r) = None"
  shows "snd (page df sel) = Raised ValueError \<and> (\<forall>fig. St_pyplot fig \<notin> set (fst (page df sel)))"
proof -
  from default_index_present [OF assms(1)] obtain i
    where i: "default_index (leagues df) = Inr i" by blast
  from assms(2) have ne: "filtered_shots df sel \<noteq> []" by auto
  from assms(2,3) have "scatter (filtered_shots df sel) = Inl ValueError"
    unfolding scatter_raises by blast
  then have "draw sel (filtered_shots df sel) = Inl ValueError" by (simp add: draw_def)
  from page_scatter_raises [OF i ne this] show ?thesis
    by (simp add: chrome_calls sidebar_calls)
qed

subsection \<open>The claims\<close>



text \<open>
  C2, as stated for all six stages, fails at the team stage: with nothing selected there,
  \<open>'All'\<close> is not selected either, and line 65 keeps the rows whose team is in the empty
  list. One row goes in and none comes out.
\<close>

theorem empty_team_selection_not_identity:
  "filtered_by_teams [arsenal_goal] [] \<noteq> [arsenal_goal]"
  by (simp add: filtered_by_teams_def isin_def split: option.split)

text \<open>
  C2, amended: at each of the stages player, match, situation, body part and result, an
  empty selection leaves the rows as they are.
\<close>

theorem empty_selection_is_identity:
  "by_players [] rows = rows \<and> by_games [] rows = rows \<and> by_situations [] rows = rows \<and>
   by_body_parts [] rows = rows \<and> by_results [] rows = rows"
  by (simp add: by_players_def by_games_def by_situations_def by_body_parts_def by_results_def)

theorem empty_selection_is_identity_witness:
  "by_players [] demo_df = demo_df \<and> by_games [] demo_df = demo_df \<and>
   by_situations [] demo_df = demo_df \<and> by_body_parts [] demo_df = demo_df \<and>
   by_results [] demo_df = demo_df \<and> demo_df \<noteq> []"
  using empty_selection_is_identity [of demo_df] by (simp add: demo_df_def)

text \<open>
  C3, as stated, fails when the canonical league has no row: line 49 looks the canonical
  league up in the sorted list of leagues and has no other case. Here La Liga is the only
  league, alphabetically the first one, and it is not the default.
\<close>

theorem no_default_without_canonical_league:
  "leagues [madrid_miss] = [''ESP-La Liga''] \<and>
   default_league (leagues [madrid_miss]) \<noteq> Inr ''ESP-La Liga''"
  by (simp add: leagues_def unique_def madrid_miss_def default_league_def default_index_def
      list_index_def)

text \<open>
  C3, amended: the default league is the canonical league \<open>ENG-Premier League\<close> when
  the data has a row of it; when it has none, the lookup raises \<open>ValueError\<close> and
  no league is selected.
\<close>

theorem default_league_canonical_or_error:
  "default_league (leagues df) =
     (if ''ENG-Premier League'' \<in> league ` set df then Inr ''ENG-Premier League''
      else Inl ValueError)"
  by (simp add: default_league_eq set_leagues)

theorem default_league_canonical_or_error_witness:
  "''ENG-Premier League'' \<in> league ` set demo_df \<and>
   default_league (leagues demo_df) = Inr ''ENG-Premier League'' \<and>
   ''ENG-Premier League'' \<notin> league ` set [madrid_miss] \<and>
   default_league (leagues [madrid_miss]) = Inl ValueError"
  using default_league_canonical_or_error [of demo_df]
    default_league_canonical_or_error [of "[madrid_miss]"]
  by (simp add: demo_df_def arsenal_goal_def madrid_miss_def)

text \<open>
  C4 (the marker colour is the palette colour of the result, and a result outside the
  palette gets a fallback colour). Line 138 maps the result column through the dict
  without a default: the marker of a row whose result is Own Goal has no colour, while
  the legend's lookup on line 165 would give the same result the colour black.
\<close>

theorem marker_without_color_outside_palette:
  "result chelsea_own_goal = Some ''Own Goal'' \<and>
   marker_color (marker_of chelsea_own_goal) = None \<and>
   dict_get result_colors ''Own Goal'' ''black'' = ''black''"
  by (simp add: chelsea_own_goal_def marker_of_def map_colors_def result_colors_def dict_get_def)

text \<open>
  C5: when the team selection contains \<open>'All'\<close>, the team stage returns the league
  subset unchanged, whatever other teams are selected with it.
\<close>

theorem all_means_no_team_restriction:
  "''All'' \<in> set teams \<Longrightarrow> filtered_by_teams by_league teams = by_league"
  by (simp add: filtered_by_teams_def)

theorem all_means_no_team_restriction_witness:
  "''All'' \<in> set [''Arsenal'', ''All''] \<and>
   filtered_by_teams [arsenal_goal, chelsea_own_goal] [''Arsenal'', ''All'']
     = [arsenal_goal, chelsea_own_goal]"
proof -
  have h: "''All'' \<in> set [''Arsenal'', ''All'']" by simp
  from all_means_no_team_restriction [OF h] h show ?thesis by blast
qed

text \<open>
  C6: each step of the cascade, from the league filter to the final \<open>dropna\<close>, yields
  rows of its input and no more rows than its input has.
\<close>

theorem cascade_narrows:
  "(set (after_league df sel) \<subseteq> set df \<and> length (after_league df sel) \<le> length df) \<and>
   (set (after_teams df sel) \<subseteq> set (after_league df sel) \<and>
      length (after_teams df sel) \<le> length (after_league df sel)) \<and>
   (set (after_players df sel) \<subseteq> set (after_teams df sel) \<and>
      length (after_players df sel) \<le> length (after_teams df sel)) \<and>
   (set (after_games df sel) \<subseteq> set (after_players df sel) \<and>
      length (after_games df sel) \<le> length (after_players df sel)) \<and>
   (set (after_situations df sel) \<subseteq> set (after_games df sel) \<and>
      length (after_situations df sel) \<le> length (after_games df sel)) \<and>
   (set (after_body_parts df sel) \<subseteq> set (after_situations df sel) \<and>
      length (after_body_parts df sel) \<le> length (after_situations df sel)) \<and>
   (set (after_results df sel) \<subseteq> set (after_body_parts df sel) \<and>
      length (after_results df sel) \<le> length (after_body_parts df sel)) \<and>
   (set (filtered_shots df sel) \<subseteq> set (after_results df sel) \<and>
      length (filtered_shots df sel) \<le> length (after_results df sel))"
  unfolding after_league_def after_teams_def after_players_def after_games_def
    after_situations_def after_body_parts_def after_results_def filtered_shots_def
  by (intro conjI league_stage_narrows [THEN conjunct1] league_stage_narrows [THEN conjunct2]
      team_stage_narrows [THEN conjunct1] team_stage_narrows [THEN conjunct2]
      player_stage_narrows [THEN conjunct1] player_stage_narrows [THEN conjunct2]
      game_stage_narrows [THEN conjunct1] game_stage_narrows [THEN conjunct2]
      situation_stage_narrows [THEN conjunct1] situation_stage_narrows [THEN conjunct2]
      body_part_stage_narrows [THEN conjunct1] body_part_stage_narrows [THEN conjunct2]
      result_stage_narrows [THEN conjunct1] result_stage_narrows [THEN conjunct2]
      dropna_narrows [THEN conjunct1] dropna_narrows [THEN conjunct2])

theorem cascade_narrows_witness:
  "length (filtered_shots demo_df chelsea_headers) \<le> length (after_results demo_df chelsea_headers) \<and>
   length (after_teams demo_df chelsea_headers) \<le> length (after_league demo_df chelsea_headers) \<and>
   length (after_league demo_df chelsea_headers) \<le> length demo_df \<and>
   length (after_league demo_df chelsea_headers) = 3 \<and>
   length (filtered_shots demo_df chelsea_headers) = 1"
  using cascade_narrows [of demo_df chelsea_headers] demo_stage_sizes by simp

text \<open>
  C7: every row of the table handed to the renderer has \<open>location_x\<close>, \<open>location_y\<close>,
  \<open>xg\<close> and \<open>result\<close> present, for every table and every selection.
\<close>

theorem rendered_rows_are_plottable:
  "r \<in> set (filtered_shots df sel) \<Longrightarrow>
   location_x r \<noteq> None \<and> location_y r \<noteq> None \<and> xg r \<noteq> None \<and> result r \<noteq> None"
  by (simp add: filtered_shots_def dropna_def del: not_None_eq)

theorem rendered_rows_are_plottable_witness:
  "arsenal_goal \<in> set (filtered_shots demo_df all_teams) \<and>
   location_x arsenal_goal \<noteq> None \<and> location_y arsenal_goal \<noteq> None \<and>
   xg arsenal_goal \<noteq> None \<and> result arsenal_goal \<noteq> None"
proof -
  have h: "arsenal_goal \<in> set (filtered_shots demo_df all_teams)"
    by (simp add: demo_filtered)
  from rendered_rows_are_plottable [OF h] h show ?thesis by blast
qed

text \<open>
  C8: when a file of \<open>LEAGUE_FILES\<close> is not there, the run makes one Streamlit call,
  the error message of line 27 with the path of a missing file between quotes, and
  stops: no widget and no data of the files that were read is shown.
\<close>

theorem missing_source_stops_the_session:
  assumes "\<exists>p \<in> snd ` set LEAGUE_FILES. fs p = None"
  shows "\<exists>p \<in> snd ` set LEAGUE_FILES.
           fs p = None \<and>
           app fs sel =
             ([St_error
                (''Error: '' @ [CHR 0x27] @ p @ [CHR 0x27] @
                 '' not found. Please make sure the data file is in the same directory.'')],
              Stopped)"
proof -
  from load_leagues_missing [OF assms, of "[]"] obtain p
    where "p \<in> snd ` set LEAGUE_FILES" "fs p = None"
      "load_leagues fs LEAGUE_FILES [] = Inl (not_found_message p)"
    by blast
  then show ?thesis by (auto simp: app_def not_found_message_def)
qed

theorem missing_source_stops_the_session_witness:
  "(\<exists>p \<in> snd ` set LEAGUE_FILES. no_bundesliga p = None) \<and>
   app no_bundesliga all_teams =
     ([St_error
        ''Error: 'ger_shots.csv' not found. Please make sure the data file is in the same directory.''],
      Stopped)"
proof -
  have h: "\<exists>p \<in> snd ` set LEAGUE_FILES. no_bundesliga p = None"
    by (simp add: LEAGUE_FILES_def no_bundesliga_def)
  from missing_source_stops_the_session [OF h, of all_teams] obtain p
    where p: "p \<in> snd ` set LEAGUE_FILES" "no_bundesliga p = None"
      "app no_bundesliga all_teams =
         ([St_error
            (''Error: '' @ [CHR 0x27] @ p @ [CHR 0x27] @
             '' not found. Please make sure the data file is in the same directory.'')],
          Stopped)"
    by blast
  from p(1,2) have "p = ''ger_shots.csv''"
    by (auto simp: LEAGUE_FILES_def no_bundesliga_def demo_files_def)
  with p(3) h show ?thesis by simp
qed

text \<open>
  C9: with an empty team selection the team stage returns no row, for every league
  subset.
\<close>

theorem empty_team_selection_excludes_everything:
  "filtered_by_teams by_league [] = []"
  by (simp add: filtered_by_teams_def isin_def split: option.split)

theorem empty_team_selection_excludes_everything_witness:
  "filtered_by_teams [arsenal_goal, chelsea_own_goal] [] = [] \<and>
   [arsenal_goal, chelsea_own_goal] \<noteq> []"
  using empty_team_selection_excludes_everything [of "[arsenal_goal, chelsea_own_goal]"]
  by simp

text \<open>
  C10: in every run that gets past the league select box, the sidebar shows the number of
  rows of the table after \<open>dropna\<close> and no other number, and a figure that is shown
  has exactly that many points.
\<close>

theorem displayed_count_is_number_of_plotted_rows:
  assumes "''ENG-Premier League'' \<in> league ` set df"
  shows "St_sidebar_info (''Number of shots: '' @ str (length (filtered_shots df sel)))
           \<in> set (fst (page df sel)) \<and>
         (\<forall>n. St_sidebar_info (''Number of shots: '' @ str n) \<in> set (fst (page df sel)) \<longrightarrow>
                n = length (filtered_shots df sel)) \<and>
         (\<forall>fig. St_pyplot fig \<in> set (fst (page df sel)) \<longrightarrow>
                length (fig_markers fig) = length (filtered_shots df sel))"
proof -
  from default_index_present [OF assms] obtain i
    where i: "default_index (leagues df) = Inr i" by blast
  have shown: "St_sidebar_info (''Number of shots: '' @ str (length (filtered_shots df sel)))
                 \<in> set (fst (page df sel))"
    unfolding count_on_page [OF i] by (simp add: shots_message_def)
  have only: "n = length (filtered_shots df sel)"
    if "St_sidebar_info (''Number of shots: '' @ str n) \<in> set (fst (page df sel))" for n
  proof -
    from that have "str n = str (length (filtered_shots df sel))"
      unfolding count_on_page [OF i] by (simp add: shots_message_def)
    then show ?thesis by (rule str_inj)
  qed
  have points: "length (fig_markers fig) = length (filtered_shots df sel)"
    if "St_pyplot fig \<in> set (fst (page df sel))" for fig
    using draw_returns [OF pyplot_is_draw [OF that]] by (simp add: markers_of_def)
  from shown only points show ?thesis by blast
qed

theorem displayed_count_is_number_of_plotted_rows_witness:
  "''ENG-Premier League'' \<in> league ` set palette_df \<and>
   St_sidebar_info ''Number of shots: 2'' \<in> set (fst (page palette_df all_teams)) \<and>
   St_pyplot palette_figure \<in> set (fst (page palette_df all_teams)) \<and>
   length (fig_markers palette_figure) = 2 \<and>
   length (filtered_shots palette_df all_teams) = 2 \<and>
   length (after_results palette_df all_teams) = 3"
proof -
  have h: "''ENG-Premier League'' \<in> league ` set palette_df"
    by (simp add: palette_df_def arsenal_saved_def)
  have p: "St_pyplot palette_figure \<in> set (fst (page palette_df all_teams))"
    by (simp add: palette_page)
  from displayed_count_is_number_of_plotted_rows [OF h, of all_teams]
  have shown: "St_sidebar_info
                 (''Number of shots: '' @ str (length (filtered_shots palette_df all_teams)))
                 \<in> set (fst (page palette_df all_teams))"
    and points: "\<forall>fig. St_pyplot fig \<in> set (fst (page palette_df all_teams)) \<longrightarrow>
                   length (fig_markers fig) = length (filtered_shots palette_df all_teams)"
    by blast+
  from shown have "St_sidebar_info ''Number of shots: 2'' \<in> set (fst (page palette_df all_teams))"
    by (simp add: palette_filtered str.simps digit_def)
  moreover from points p have "length (fig_markers palette_figure) = 2"
    by (simp add: palette_filtered)
  ultimately show ?thesis using h p by (simp add: palette_filtered palette_unfiltered)
qed

end
